theory Spec2Isabelle
  imports Main "HOL-Library.Word" "HOL-Library.Sublist"
begin

section \<open>The memo application (\<open>src/memo-app/src/App.jsx\<close>)\<close>

text \<open>
  The \<open>App\<close> component keeps a list of memos in React state, talks to one table of an
  external store and derives the list that is shown from the search text. Its handlers
  are modelled by explicit state passing: every handler takes the component state and
  returns the state after the handler has run to completion. Each handler awaits at most
  one store call; the answer of that call is an argument of the model, as are the answer
  of \<open>window.confirm\<close> and the clock reading of \<open>new Date().toISOString()\<close>.
\<close>

subsection \<open>Strings\<close>

text \<open>
  A JavaScript string is a sequence of 16-bit code units. \<open>js\<close> writes an ASCII literal
  as such a sequence, one code unit per character.
\<close>

type_synonym jsstring = "16 word list"

definition js :: "string \<Rightarrow> jsstring" where
  "js s = map (\<lambda>c. of_nat (of_char c)) s"

text \<open>
  \<open>String.prototype.trim\<close> removes the ECMAScript \<open>WhiteSpace\<close> and \<open>LineTerminator\<close>
  code points from both ends; all of them lie in the Basic Multilingual Plane, so the
  test is one on code units.
\<close>

definition isWhiteSpace :: "16 word \<Rightarrow> bool" where
  "isWhiteSpace c \<longleftrightarrow>
     c = 0x0009 \<or> c = 0x000A \<or> c = 0x000B \<or> c = 0x000C \<or> c = 0x000D \<or>
     c = 0x0020 \<or> c = 0x00A0 \<or> c = 0x1680 \<or> (0x2000 \<le> c \<and> c \<le> 0x200A) \<or>
     c = 0x2028 \<or> c = 0x2029 \<or> c = 0x202F \<or> c = 0x205F \<or> c = 0x3000 \<or>
     c = 0xFEFF"

definition trim :: "jsstring \<Rightarrow> jsstring" where
  "trim s = rev (dropWhile isWhiteSpace (rev (dropWhile isWhiteSpace s)))"









subsection \<open>Data model\<close>

text \<open>
  A row of the \<open>memos\<close> table. The identifier is whatever the store mints (a number or a
  string); \<open>===\<close> on such values is equality.
\<close>

record 'i memo =
  memo_id :: 'i
  title :: jsstring
  content :: jsstring
  created_at :: jsstring
  updated_at :: "jsstring option"

datatype store_error = StoreError string

text \<open>The four calls the component makes on the store.\<close>

datatype 'i request =
    SelectAll
  | InsertRow jsstring jsstring
  | UpdateRow 'i jsstring jsstring jsstring
  | DeleteRow 'i

text \<open>
  The React state of \<open>App\<close> (the five \<open>useState\<close> cells) together with three logs of
  what the component has done to the outside: the requests sent to the store, the lines
  written with \<open>console.error\<close> and the messages shown with \<open>alert\<close>.
\<close>

record 'i app =
  memos :: "'i memo list"
  loading :: bool
  search :: jsstring
  isModalOpen :: bool
  editingMemo :: "'i memo option"
  requests :: "'i request list"
  console :: "(string \<times> store_error) list"
  alerts :: "jsstring list"

definition initial :: "'i app" where
  "initial = \<lparr>memos = [], loading = True, search = [], isModalOpen = False,
     editingMemo = None, requests = [], console = [], alerts = []\<rparr>"

subsection \<open>Store operations\<close>

text \<open>
  The store answers with \<open>{ data, error }\<close>. A truthy \<open>error\<close> is \<open>Inl\<close>; otherwise the
  answer is \<open>Inr data\<close>. For \<open>select\<close> the data may be \<open>null\<close> (\<open>None\<close>), which the code
  replaces by the empty array; with \<open>.single()\<close> the data of an answer without error is
  the one row; \<open>delete\<close> answers with the error only.
\<close>

definition fetchMemos :: "store_error + 'i memo list option \<Rightarrow> 'i app \<Rightarrow> 'i app" where
  "fetchMemos resp st =
     (let st1 = st\<lparr>loading := True\<rparr>;
          st2 = st1\<lparr>requests := requests st1 @ [SelectAll]\<rparr>;
          st3 = (case resp of
                   Inl e \<Rightarrow> st2\<lparr>console := console st2 @ [(''fetchMemos error'', e)]\<rparr>
                 | Inr d \<Rightarrow> st2\<lparr>memos := (case d of None \<Rightarrow> [] | Some ms \<Rightarrow> ms)\<rparr>)
      in st3\<lparr>loading := False\<rparr>)"

definition handleCreateMemo ::
  "store_error + 'i memo \<Rightarrow> jsstring \<Rightarrow> jsstring \<Rightarrow> 'i app \<Rightarrow> 'i app" where
  "handleCreateMemo resp t c st =
     (let st1 = st\<lparr>requests := requests st @ [InsertRow t c]\<rparr>
      in case resp of
           Inl e \<Rightarrow> st1\<lparr>console := console st1 @ [(''createMemo error'', e)]\<rparr>
         | Inr d \<Rightarrow> st1\<lparr>memos := d # memos st1\<rparr>)"

definition handleUpdateMemo ::
  "store_error + 'i memo \<Rightarrow> jsstring \<Rightarrow> 'i \<Rightarrow> jsstring \<Rightarrow> jsstring \<Rightarrow> 'i app \<Rightarrow> 'i app" where
  "handleUpdateMemo resp now i t c st =
     (let st1 = st\<lparr>requests := requests st @ [UpdateRow i t c now]\<rparr>
      in case resp of
           Inl e \<Rightarrow> st1\<lparr>console := console st1 @ [(''updateMemo error'', e)]\<rparr>
         | Inr d \<Rightarrow> st1\<lparr>memos := map (\<lambda>m. if memo_id m = i then d else m) (memos st1)\<rparr>)"

definition handleDeleteMemo ::
  "bool \<Rightarrow> store_error option \<Rightarrow> 'i \<Rightarrow> 'i app \<Rightarrow> 'i app" where
  "handleDeleteMemo confirmed resp i st =
     (if \<not> confirmed then st
      else let st1 = st\<lparr>requests := requests st @ [DeleteRow i]\<rparr>
           in case resp of
                Some e \<Rightarrow> st1\<lparr>console := console st1 @ [(''deleteMemo error'', e)]\<rparr>
              | None \<Rightarrow> st1\<lparr>memos := filter (\<lambda>m. memo_id m \<noteq> i) (memos st1)\<rparr>)"

subsection \<open>The modal\<close>

definition openNewMemoModal :: "'i app \<Rightarrow> 'i app" where
  "openNewMemoModal st = st\<lparr>editingMemo := None, isModalOpen := True\<rparr>"

definition openEditMemoModal :: "'i memo \<Rightarrow> 'i app \<Rightarrow> 'i app" where
  "openEditMemoModal m st = st\<lparr>editingMemo := Some m, isModalOpen := True\<rparr>"

definition closeModal :: "'i app \<Rightarrow> 'i app" where
  "closeModal st = st\<lparr>isModalOpen := False\<rparr>"

text \<open>
  The \<open>onSubmit\<close> callback that \<open>App\<close> hands to the modal: it awaits the update or the
  insert, whichever \<open>editingMemo\<close> selects, and then closes the modal.
\<close>

definition onSubmit ::
  "store_error + 'i memo \<Rightarrow> jsstring \<Rightarrow> jsstring \<Rightarrow> jsstring \<Rightarrow> 'i app \<Rightarrow> 'i app" where
  "onSubmit resp now t c st =
     closeModal
       (case editingMemo st of
          Some m \<Rightarrow> handleUpdateMemo resp now (memo_id m) t c st
        | None \<Rightarrow> handleCreateMemo resp t c st)"

text \<open>
  The message of the \<open>alert\<close> in \<open>MemoModal.handleSubmit\<close>, as code units.
\<close>

definition title_required :: jsstring where
  "title_required =
     [0xC81C, 0xBAA9, 0xC744, 0x0020, 0xC785, 0xB825, 0xD558, 0xC138, 0xC694, 0x002E]"

text \<open>
  \<open>MemoModal.handleSubmit\<close>, with the two fields of the form as arguments.
\<close>

definition handleSubmit ::
  "store_error + 'i memo \<Rightarrow> jsstring \<Rightarrow> jsstring \<Rightarrow> jsstring \<Rightarrow> 'i app \<Rightarrow> 'i app" where
  "handleSubmit resp now t c st =
     (if trim t = [] then st\<lparr>alerts := alerts st @ [title_required]\<rparr>
      else onSubmit resp now (trim t) (trim c) st)"

subsection \<open>The derived list\<close>


subsection \<open>The filter in the words of its specification\<close>

text \<open>
  A search text is blank when it is empty or made of white space only.

  Two code units are the same letter, case ignored, when their case foldings agree:
  the folding takes a capital Latin or Greek letter to its small letter and the final
  small sigma to the small sigma. Two texts are equal, case ignored, when they have the
  same length and agree in this way position by position. A text contains the search
  text as a case-insensitive substring when one of its contiguous blocks, as long as the
  search text, equals the search text, case ignored. Nothing here lower-cases a whole
  text at once.
\<close>

definition whitespace_only :: "jsstring \<Rightarrow> bool" where
  "whitespace_only s \<longleftrightarrow> list_all isWhiteSpace s"





subsection \<open>Sample data\<close>

definition memoA :: "nat memo" where
  "memoA = \<lparr>memo_id = 1, title = js ''Trip plan'', content = js ''Pack bags'',
     created_at = js ''2024-05-02T10:00:00Z'', updated_at = None\<rparr>"

definition memoB :: "nat memo" where
  "memoB = \<lparr>memo_id = 2, title = js ''Recipe'', content = js ''Eggs, flour'',
     created_at = js ''2024-05-01T09:00:00Z'', updated_at = None\<rparr>"

definition memoB_edited :: "nat memo" where
  "memoB_edited = memoB\<lparr>title := js ''Recipe v2'',
     updated_at := Some (js ''2024-05-03T08:00:00.000Z'')\<rparr>"

definition memoC :: "nat memo" where
  "memoC = \<lparr>memo_id = 3, title = js ''Groceries'', content = js ''Milk, eggs'',
     created_at = js ''2024-05-03T12:00:00Z'', updated_at = None\<rparr>"

definition two_memos :: "nat app" where
  "two_memos = initial\<lparr>memos := [memoA, memoB], loading := False\<rparr>"



definition clock :: jsstring where
  "clock = js ''2024-05-03T08:00:00.000Z''"

definition unreachable :: store_error where
  "unreachable = StoreError ''Failed to fetch''"

section \<open>Properties\<close>

subsection \<open>Auxiliary facts about strings and lists\<close>

lemma dropWhile_all_iff: "(\<forall>x\<in>set (dropWhile P s). P x) \<longleftrightarrow> dropWhile P s = []"
proof
  assume a: "\<forall>x\<in>set (dropWhile P s). P x"
  show "dropWhile P s = []"
  proof (rule ccontr)
    assume n: "dropWhile P s \<noteq> []"
    then have "\<not> P (hd (dropWhile P s))" by (rule hd_dropWhile)
    moreover from n have "hd (dropWhile P s) \<in> set (dropWhile P s)" by simp
    ultimately show False using a by blast
  qed
qed (auto dest: set_dropWhileD)

lemma trim_Nil_iff: "trim s = [] \<longleftrightarrow> (\<forall>c\<in>set s. isWhiteSpace c)"
proof -
  have "trim s = [] \<longleftrightarrow> (\<forall>x\<in>set (dropWhile isWhiteSpace s). isWhiteSpace x)"
    by (simp add: trim_def)
  also have "\<dots> \<longleftrightarrow> dropWhile isWhiteSpace s = []" by (rule dropWhile_all_iff)
  also have "\<dots> \<longleftrightarrow> (\<forall>c\<in>set s. isWhiteSpace c)" by simp
  finally show ?thesis .
qed

lemma trim_Nil_whitespace_only: "trim s = [] \<longleftrightarrow> whitespace_only s"
  by (simp add: trim_Nil_iff whitespace_only_def list_all_iff)







lemma filter_single_out:
  "length (filter P xs) = 1 \<Longrightarrow>
     \<exists>ys m zs. xs = ys @ m # zs \<and> P m \<and> filter (\<lambda>x. \<not> P x) xs = ys @ zs"
proof (induction xs)
  case Nil
  then show ?case by simp
next
  case (Cons x xs)
  show ?case
  proof (cases "P x")
    case True
    with Cons.prems have "filter P xs = []" by simp
    then have "\<forall>y\<in>set xs. \<not> P y" by (simp add: filter_empty_conv)
    then have "filter (\<lambda>x. \<not> P x) xs = xs" by simp
    with True have "x # xs = [] @ x # xs \<and> P x \<and> filter (\<lambda>x. \<not> P x) (x # xs) = [] @ xs"
      by simp
    then show ?thesis by blast
  next
    case False
    with Cons.prems have "length (filter P xs) = 1" by simp
    from Cons.IH [OF this] obtain ys m zs
      where "xs = ys @ m # zs" "P m" "filter (\<lambda>x. \<not> P x) xs = ys @ zs" by blast
    with False have "x # xs = (x # ys) @ m # zs \<and> P m \<and>
        filter (\<lambda>x. \<not> P x) (x # xs) = (x # ys) @ zs" by simp
    then show ?thesis by blast
  qed
qed

subsection \<open>Filter\<close>




subsection \<open>Failure of the store\<close>

text \<open>
  C2. When the store answers with an error, the memo list after \<open>fetchMemos\<close>,
  \<open>handleCreateMemo\<close>, \<open>handleUpdateMemo\<close> and \<open>handleDeleteMemo\<close> is the memo list
  before, for every starting state.
\<close>

theorem store_failure_keeps_memos:
  "memos (fetchMemos (Inl e) st) = memos st \<and>
   memos (handleCreateMemo (Inl e) t c st) = memos st \<and>
   memos (handleUpdateMemo (Inl e) now i t c st) = memos st \<and>
   memos (handleDeleteMemo confirmed (Some e) i st) = memos st"
  by (simp add: fetchMemos_def handleCreateMemo_def handleUpdateMemo_def handleDeleteMemo_def)

theorem store_failure_keeps_memos_witness:
  "memos (fetchMemos (Inl unreachable) two_memos) = [memoA, memoB] \<and>
   memos (handleCreateMemo (Inl unreachable) (js ''Groceries'') (js ''Milk, eggs'') two_memos)
     = [memoA, memoB] \<and>
   memos (handleUpdateMemo (Inl unreachable) clock 2 (js ''Recipe v2'') (js ''Eggs'') two_memos)
     = [memoA, memoB] \<and>
   memos (handleDeleteMemo True (Some unreachable) 1 two_memos) = [memoA, memoB]"
  using store_failure_keeps_memos [where e = unreachable and st = two_memos
      and t = "js ''Groceries''" and c = "js ''Milk, eggs''" and now = clock and i = 1
      and confirmed = True]
    store_failure_keeps_memos [where e = unreachable and st = two_memos
      and t = "js ''Recipe v2''" and c = "js ''Eggs''" and now = clock and i = 2
      and confirmed = True]
  by (simp add: two_memos_def initial_def)

subsection \<open>Create\<close>

text \<open>
  C3. When the insert succeeds and the store returns the row \<open>r\<close>, the list after
  \<open>handleCreateMemo\<close> is one longer than before, \<open>r\<close> is its first element and the old
  list follows it unchanged, in its order.
\<close>

theorem create_prepends:
  "memos (handleCreateMemo (Inr r) t c st) = r # memos st \<and>
   length (memos (handleCreateMemo (Inr r) t c st)) = Suc (length (memos st)) \<and>
   hd (memos (handleCreateMemo (Inr r) t c st)) = r \<and>
   tl (memos (handleCreateMemo (Inr r) t c st)) = memos st"
  by (simp add: handleCreateMemo_def)

theorem create_prepends_witness:
  "memos (handleCreateMemo (Inr memoC) (js ''Groceries'') (js ''Milk, eggs'') initial) = [memoC] \<and>
   memos (handleCreateMemo (Inr memoC) (js ''Groceries'') (js ''Milk, eggs'') two_memos)
     = [memoC, memoA, memoB]"
  using create_prepends [of memoC "js ''Groceries''" "js ''Milk, eggs''" initial]
    create_prepends [of memoC "js ''Groceries''" "js ''Milk, eggs''" two_memos]
  by (simp add: two_memos_def initial_def)

subsection \<open>Update\<close>

text \<open>
  C4. When the update succeeds and the store returns the row \<open>r\<close>, the list after
  \<open>handleUpdateMemo\<close> has the length it had; at every position the entry is \<open>r\<close> itself
  when the old entry has the identifier asked for, and the old entry otherwise; and when
  the old list has an entry with that identifier, \<open>r\<close> is in the new list.
\<close>

theorem update_replaces_matching:
  "length (memos (handleUpdateMemo (Inr r) now i t c st)) = length (memos st) \<and>
   (\<forall>k<length (memos st).
      memos (handleUpdateMemo (Inr r) now i t c st) ! k =
        (if memo_id (memos st ! k) = i then r else memos st ! k)) \<and>
   ((\<exists>m\<in>set (memos st). memo_id m = i) \<longrightarrow>
      r \<in> set (memos (handleUpdateMemo (Inr r) now i t c st)))"
  by (auto simp: handleUpdateMemo_def)

theorem update_replaces_matching_witness:
  "(\<exists>m\<in>set (memos two_memos). memo_id m = 2) \<and>
   memos (handleUpdateMemo (Inr memoB_edited) clock 2 (js ''Recipe v2'') (js ''Eggs, flour'')
       two_memos) = [memoA, memoB_edited]"
proof -
  let ?st = "handleUpdateMemo (Inr memoB_edited) clock 2 (js ''Recipe v2'')
      (js ''Eggs, flour'') two_memos"
  note u = update_replaces_matching [of memoB_edited clock 2 "js ''Recipe v2''"
      "js ''Eggs, flour''" two_memos]
  have ms: "memos two_memos = [memoA, memoB]" by (simp add: two_memos_def initial_def)
  have ids: "memo_id memoA = 1" "memo_id memoB = 2" by (simp_all add: memoA_def memoB_def)
  from u have len: "length (memos ?st) = 2" by (simp add: ms)
  from u have "\<forall>k<2. memos ?st ! k =
      (if memo_id ([memoA, memoB] ! k) = 2 then memoB_edited else [memoA, memoB] ! k)"
    by (simp add: ms)
  then have "memos ?st ! 0 = memoA" "memos ?st ! 1 = memoB_edited"
    by (simp_all add: ids)
  with len have "memos ?st = [memoA, memoB_edited]"
    by (auto simp: list_eq_iff_nth_eq less_Suc_eq numeral_2_eq_2)
  then show ?thesis by (simp add: ms ids)
qed

text \<open>
  C10. When the update succeeds but no entry of the list has the identifier asked for,
  the list after \<open>handleUpdateMemo\<close> is the list before; and whatever the identifier and
  the answer of the store, the list keeps its length.
\<close>

theorem update_absent_id_is_noop:
  "((\<forall>m\<in>set (memos st). memo_id m \<noteq> i) \<longrightarrow>
      memos (handleUpdateMemo (Inr r) now i t c st) = memos st) \<and>
   length (memos (handleUpdateMemo resp now i t c st)) = length (memos st)"
  by (cases resp) (simp_all add: handleUpdateMemo_def map_idI)

theorem update_absent_id_is_noop_witness:
  "3 \<notin> memo_id ` set (memos two_memos) \<and>
   memos (handleUpdateMemo (Inr memoC) clock 3 (js ''Groceries'') (js ''Milk, eggs'') two_memos)
     = [memoA, memoB]"
proof -
  have a: "\<forall>m\<in>set (memos two_memos). memo_id m \<noteq> 3"
    by (simp add: two_memos_def initial_def memoA_def memoB_def)
  with update_absent_id_is_noop [of two_memos 3 memoC clock "js ''Groceries''"
      "js ''Milk, eggs''"]
  have "memos (handleUpdateMemo (Inr memoC) clock 3 (js ''Groceries'') (js ''Milk, eggs'')
      two_memos) = memos two_memos" by blast
  with a show ?thesis by (auto simp: two_memos_def initial_def)
qed

subsection \<open>Delete\<close>

text \<open>
  C5. After a confirmed \<open>handleDeleteMemo\<close> whose store call succeeds, no entry of the
  list has the identifier asked for and the list is a subsequence of the old one. When
  exactly one entry of the old list has that identifier, the new list is the old one with
  that entry taken out, and so one shorter, with the other entries as they were and in
  their order.
\<close>

theorem delete_removes_id:
  "(\<forall>m\<in>set (memos (handleDeleteMemo True None i st)). memo_id m \<noteq> i) \<and>
   subseq (memos (handleDeleteMemo True None i st)) (memos st) \<and>
   (length (filter (\<lambda>m. memo_id m = i) (memos st)) = 1 \<longrightarrow>
      Suc (length (memos (handleDeleteMemo True None i st))) = length (memos st) \<and>
      (\<exists>ys m zs. memos st = ys @ m # zs \<and> memo_id m = i \<and>
         memos (handleDeleteMemo True None i st) = ys @ zs))"
proof -
  have m: "memos (handleDeleteMemo True None i st) = filter (\<lambda>m. memo_id m \<noteq> i) (memos st)"
    by (simp add: handleDeleteMemo_def)
  have "\<forall>m\<in>set (memos (handleDeleteMemo True None i st)). memo_id m \<noteq> i"
    by (simp add: m)
  moreover have "subseq (memos (handleDeleteMemo True None i st)) (memos st)"
    by (simp add: m)
  moreover have "Suc (length (memos (handleDeleteMemo True None i st))) = length (memos st) \<and>
      (\<exists>ys m zs. memos st = ys @ m # zs \<and> memo_id m = i \<and>
         memos (handleDeleteMemo True None i st) = ys @ zs)"
    if one: "length (filter (\<lambda>m. memo_id m = i) (memos st)) = 1"
  proof -
    from filter_single_out [OF one] obtain ys x zs
      where d: "memos st = ys @ x # zs" "memo_id x = i"
        "filter (\<lambda>m. memo_id m \<noteq> i) (memos st) = ys @ zs" by blast
    then have "Suc (length (memos (handleDeleteMemo True None i st))) = length (memos st)"
      by (simp add: m)
    moreover from d have "\<exists>ys m zs. memos st = ys @ m # zs \<and> memo_id m = i \<and>
         memos (handleDeleteMemo True None i st) = ys @ zs"
      unfolding m by blast
    ultimately show ?thesis by simp
  qed
  ultimately show ?thesis by blast
qed

theorem delete_removes_id_witness:
  "length (filter (\<lambda>m. memo_id m = 1) (memos two_memos)) = 1 \<and>
   1 \<notin> memo_id ` set (memos (handleDeleteMemo True None 1 two_memos)) \<and>
   Suc (length (memos (handleDeleteMemo True None 1 two_memos))) = length (memos two_memos)"
proof -
  have one: "length (filter (\<lambda>m. memo_id m = 1) (memos two_memos)) = 1"
    by (simp add: two_memos_def initial_def memoA_def memoB_def)
  with delete_removes_id [of 1 two_memos] show ?thesis by auto
qed

text \<open>
  C9. When the user declines the confirmation, \<open>handleDeleteMemo\<close> returns the state it
  was given, request log included. A run of \<open>handleDeleteMemo\<close> that adds to the request
  log is a confirmed one: the log grows by the one delete request when the user confirms
  and not at all otherwise.
\<close>

theorem delete_needs_confirmation:
  "handleDeleteMemo False resp i st = st \<and>
   (requests (handleDeleteMemo confirmed resp i st) \<noteq> requests st \<longrightarrow> confirmed) \<and>
   requests (handleDeleteMemo confirmed resp i st) =
     requests st @ (if confirmed then [DeleteRow i] else [])"
  by (cases resp) (simp_all add: handleDeleteMemo_def)

theorem delete_needs_confirmation_witness:
  "handleDeleteMemo False None 1 two_memos = two_memos \<and>
   requests (handleDeleteMemo True None 1 two_memos) \<noteq> requests two_memos \<and>
   requests (handleDeleteMemo True None 1 two_memos) = [DeleteRow 1]"
  using delete_needs_confirmation [of None 1 two_memos True]
    delete_needs_confirmation [of None 1 two_memos False]
  by (simp add: two_memos_def initial_def)

subsection \<open>Submitting the form\<close>

text \<open>
  C6. When the title field is empty or white space only, \<open>handleSubmit\<close> sends no request
  and leaves the memo list alone, whether the modal is creating or editing: the state
  after it is the state before with the one \<open>alert\<close> added.
\<close>

theorem blank_title_rejected:
  assumes "whitespace_only t"
  shows "handleSubmit resp now t c st = st\<lparr>alerts := alerts st @ [title_required]\<rparr> \<and>
         requests (handleSubmit resp now t c st) = requests st \<and>
         memos (handleSubmit resp now t c st) = memos st \<and>
         alerts (handleSubmit resp now t c st) = alerts st @ [title_required]"
proof -
  from assms have "trim t = []" by (simp add: trim_Nil_whitespace_only)
  then show ?thesis by (simp add: handleSubmit_def)
qed

theorem blank_title_rejected_witness:
  "whitespace_only (js ''   '') \<and> whitespace_only [] \<and>
   requests (handleSubmit (Inr memoC) clock (js ''   '') (js ''Milk, eggs'')
       (openNewMemoModal two_memos)) = [] \<and>
   memos (handleSubmit (Inr memoC) clock (js ''   '') (js ''Milk, eggs'')
       (openNewMemoModal two_memos)) = [memoA, memoB] \<and>
   requests (handleSubmit (Inr memoB_edited) clock [] (js ''Eggs'')
       (openEditMemoModal memoB two_memos)) = [] \<and>
   memos (handleSubmit (Inr memoB_edited) clock [] (js ''Eggs'')
       (openEditMemoModal memoB two_memos)) = [memoA, memoB]"
proof -
  have w: "whitespace_only (js ''   '')" "whitespace_only []"
    by (simp_all add: whitespace_only_def js_def isWhiteSpace_def)
  from blank_title_rejected [OF w(1), of "Inr memoC" clock "js ''Milk, eggs''"
      "openNewMemoModal two_memos"]
    blank_title_rejected [OF w(2), of "Inr memoB_edited" clock "js ''Eggs''"
      "openEditMemoModal memoB two_memos"]
    w
  show ?thesis
    by (simp add: openNewMemoModal_def openEditMemoModal_def two_memos_def initial_def)
qed

text \<open>
  C7, as stated, fails. A submission whose store call fails closes the modal: with the
  modal open for a new memo, and with it open for editing \<open>memoB\<close>, \<open>isModalOpen\<close> is
  false after \<open>handleSubmit\<close> although the store answered with an error.
\<close>

theorem failed_submit_closes_modal:
  "isModalOpen (openNewMemoModal two_memos) \<and>
   \<not> isModalOpen (handleSubmit (Inl unreachable) clock (js ''Groceries'') (js ''Milk, eggs'')
        (openNewMemoModal two_memos)) \<and>
   isModalOpen (openEditMemoModal memoB two_memos) \<and>
   \<not> isModalOpen (handleSubmit (Inl unreachable) clock (js ''Recipe v2'') (js ''Eggs'')
        (openEditMemoModal memoB two_memos))"
  by (simp add: handleSubmit_def onSubmit_def closeModal_def openNewMemoModal_def
      openEditMemoModal_def handleCreateMemo_def handleUpdateMemo_def trim_def js_def
      isWhiteSpace_def two_memos_def initial_def)

text \<open>
  C7, amended. Every submission with a title that is not blank closes the modal, whether
  the store call succeeds or fails; \<open>editingMemo\<close> is left as it was, and when the store
  call fails the memo list is left as it was.
\<close>

theorem submit_always_closes_modal:
  assumes "\<not> whitespace_only t"
  shows "\<not> isModalOpen (handleSubmit resp now t c st) \<and>
         editingMemo (handleSubmit resp now t c st) = editingMemo st \<and>
         (isl resp \<longrightarrow> memos (handleSubmit resp now t c st) = memos st)"
proof -
  from assms have "trim t \<noteq> []" by (simp add: trim_Nil_whitespace_only)
  then show ?thesis
    by (cases resp)
      (simp_all add: handleSubmit_def onSubmit_def closeModal_def handleCreateMemo_def
        handleUpdateMemo_def split: option.split)
qed

theorem submit_always_closes_modal_witness:
  "\<not> whitespace_only (js ''Groceries'') \<and>
   \<not> isModalOpen (handleSubmit (Inl unreachable) clock (js ''Groceries'') (js ''Milk, eggs'')
        (openNewMemoModal two_memos)) \<and>
   memos (handleSubmit (Inl unreachable) clock (js ''Groceries'') (js ''Milk, eggs'')
        (openNewMemoModal two_memos)) = [memoA, memoB]"
proof -
  have w: "\<not> whitespace_only (js ''Groceries'')"
    by (simp add: whitespace_only_def js_def isWhiteSpace_def)
  from submit_always_closes_modal [OF w, of "Inl unreachable" clock "js ''Milk, eggs''"
      "openNewMemoModal two_memos"] w
  show ?thesis by (simp add: openNewMemoModal_def two_memos_def initial_def)
qed

subsection \<open>One entry per identifier\<close>

text \<open>
  C8. Starting from a list with pairwise distinct identifiers, the list after each
  operation has pairwise distinct identifiers, the store doing what it is asked: a
  successful load returns rows with distinct identifiers, a successful insert returns a
  row whose identifier is not in the list, and a successful update returns the row it
  updated. The update request selects its row by the identifier (\<open>.eq('id', id)\<close>) and
  sends no identifier in its payload, so the row that comes back carries the identifier
  asked for. The delete needs no assumption.
\<close>

theorem operations_keep_ids_distinct:
  assumes "distinct (map memo_id (memos st))"
  shows "((\<forall>ms. rl = Inr (Some ms) \<longrightarrow> distinct (map memo_id ms)) \<longrightarrow>
            distinct (map memo_id (memos (fetchMemos rl st)))) \<and>
         ((\<forall>r. rc = Inr r \<longrightarrow> memo_id r \<notin> memo_id ` set (memos st)) \<longrightarrow>
            distinct (map memo_id (memos (handleCreateMemo rc t c st)))) \<and>
         ((\<forall>r. ru = Inr r \<longrightarrow> memo_id r = i) \<longrightarrow>
            distinct (map memo_id (memos (handleUpdateMemo ru now i t c st)))) \<and>
         distinct (map memo_id (memos (handleDeleteMemo confirmed rd i st)))"
proof -
  have load: "distinct (map memo_id (memos (fetchMemos rl st)))"
    if "\<forall>ms. rl = Inr (Some ms) \<longrightarrow> distinct (map memo_id ms)"
    using that assms by (cases rl) (auto simp: fetchMemos_def Let_def split: option.split)
  have create: "distinct (map memo_id (memos (handleCreateMemo rc t c st)))"
    if "\<forall>r. rc = Inr r \<longrightarrow> memo_id r \<notin> memo_id ` set (memos st)"
    using that assms by (cases rc) (auto simp: handleCreateMemo_def)
  have update: "distinct (map memo_id (memos (handleUpdateMemo ru now i t c st)))"
    if h: "\<forall>r. ru = Inr r \<longrightarrow> memo_id r = i"
  proof (cases ru)
    case (Inl e)
    with assms show ?thesis by (simp add: handleUpdateMemo_def)
  next
    case (Inr r)
    with h have "memo_id r = i" by simp
    then have "memo_id \<circ> (\<lambda>m. if memo_id m = i then r else m) = memo_id"
      by (intro ext) simp
    with assms Inr show ?thesis by (simp add: handleUpdateMemo_def)
  qed
  have delete: "distinct (map memo_id (memos (handleDeleteMemo confirmed rd i st)))"
    using assms by (cases rd) (simp_all add: handleDeleteMemo_def distinct_map_filter)
  from load create update delete show ?thesis by blast
qed

theorem operations_keep_ids_distinct_witness:
  "distinct (map memo_id (memos two_memos)) \<and>
   distinct (map memo_id (memos (fetchMemos (Inr (Some [memoC, memoA])) two_memos))) \<and>
   distinct (map memo_id (memos (handleCreateMemo (Inr memoC) (js ''Groceries'')
     (js ''Milk, eggs'') two_memos))) \<and>
   distinct (map memo_id (memos (handleUpdateMemo (Inr memoB_edited) clock 2
     (js ''Groceries'') (js ''Milk, eggs'') two_memos))) \<and>
   distinct (map memo_id (memos (handleDeleteMemo True None 2 two_memos)))"
proof -
  have d: "distinct (map memo_id (memos two_memos))"
    by (simp add: two_memos_def initial_def memoA_def memoB_def)
  have l: "\<forall>ms. (Inr (Some [memoC, memoA]) :: store_error + nat memo list option) = Inr (Some ms)
      \<longrightarrow> distinct (map memo_id ms)"
    by (simp add: memoA_def memoC_def)
  have c: "\<forall>r. (Inr memoC :: store_error + nat memo) = Inr r
      \<longrightarrow> memo_id r \<notin> memo_id ` set (memos two_memos)"
    by (simp add: two_memos_def initial_def memoA_def memoB_def memoC_def)
  have u: "\<forall>r. (Inr memoB_edited :: store_error + nat memo) = Inr r \<longrightarrow> memo_id r = 2"
    by (simp add: memoB_edited_def memoB_def)
  from operations_keep_ids_distinct [OF d, where rl = "Inr (Some [memoC, memoA])"
      and rc = "Inr memoC" and t = "js ''Groceries''" and c = "js ''Milk, eggs''"
      and ru = "Inr memoB_edited" and i = 2 and now = clock and confirmed = True
      and rd = None] d l c u
  show ?thesis by blast
qed

end
